theory Spec2Isabelle
  imports Main "HOL-Library.Word" "HOL-Library.Multiset" "HOL-Library.Signed_Division"
begin

section \<open>KotOR2 module context (src/engines/kotor2/module.h)\<close>

subsection \<open>Deferred actions\<close>

text \<open>
  \<^verbatim>\<open>enum ActionType\<close> and \<^verbatim>\<open>struct Action\<close> of class Module. The script state and the
  object references are stored and handed on only, so their types stay parameters.
  The timestamp is a \<^verbatim>\<open>uint32\<close>.
\<close>

datatype ActionType = kActionNone | kActionScript

record ('s, 'o) Action =
  type :: ActionType
  script :: string
  state :: 's
  owner :: 'o
  triggerer :: 'o
  timestamp :: "32 word"

text \<open>
  Modelled from the spec: the body of \<^verbatim>\<open>Action::operator<\<close> is missing (the header only
  declares it). The spec orders actions by timestamp ascending, so the strict order
  compares the timestamps.
\<close>

definition Action_less :: "('s, 'o) Action \<Rightarrow> ('s, 'o) Action \<Rightarrow> bool" where
  "Action_less a s = (timestamp a < timestamp s)"

text \<open>
  \<^verbatim>\<open>typedef std::multiset<Action> ActionQueue\<close>. The queue is the list of its elements in
  iteration order. \<^verbatim>\<open>std::multiset::insert\<close> puts the new element at the upper bound
  of the elements equivalent to it: in front of the first element that is greater.
\<close>

type_synonym ('s, 'o) ActionQueue = "('s, 'o) Action list"

fun multiset_insert :: "('s, 'o) Action \<Rightarrow> ('s, 'o) ActionQueue \<Rightarrow> ('s, 'o) ActionQueue" where
  "multiset_insert a [] = [a]"
| "multiset_insert a (b # q) =
     (if Action_less a b then a # b # q else b # multiset_insert a q)"

text \<open>The queue after a sequence of inserts into the empty queue, first insert first.\<close>

definition insert_all :: "('s, 'o) Action list \<Rightarrow> ('s, 'o) ActionQueue" where
  "insert_all xs = foldl (\<lambda>q a. multiset_insert a q) [] xs"

text \<open>
  Modelled from the spec: the code that drains the queue (\<^verbatim>\<open>Module::handleActions\<close>) is
  missing. The spec's \<^verbatim>\<open>popReady(currentTime)\<close> removes and returns, in queue order, every
  action whose timestamp is at most the current time. The result is the pair of the
  actions returned and the queue that is left.
\<close>

definition popReady ::
  "32 word \<Rightarrow> ('s, 'o) ActionQueue \<Rightarrow> ('s, 'o) Action list \<times> ('s, 'o) ActionQueue" where
  "popReady now q =
     (filter (\<lambda>a. timestamp a \<le> now) q, filter (\<lambda>a. \<not> timestamp a \<le> now) q)"

subsection \<open>Module state and module changes\<close>

text \<open>
  The private fields of class Module that the life cycle reads and writes, under their
  names in the header with \<open>m_\<close> for the leading underscore. Areas, events and the
  player character are owned values whose contents play no part here; their types are
  parameters.
\<close>

datatype module_error = ContentNotFound | InvalidTransition

record ('s, 'o, 'a, 'e, 'c) Module =
  m_hasModule :: bool
  m_running :: bool
  m_exit :: bool
  m_pc :: "'c option"
  m_module :: string
  m_newModule :: string
  m_entryLocation :: string
  m_entryLocationType :: nat
  m_area :: "'a option"
  m_eventQueue :: "'e list"
  m_delayedActions :: "('s, 'o) ActionQueue"

text \<open>
  Modelled from the spec: the header declares the following member functions and no
  source file under src/ defines them. Each definition follows section 4.1 of the
  spec. The resource system is the parameter \<open>content\<close>: it resolves a module name
  to the module's area, or to nothing when the content is not found. A result
  \<open>Inl e\<close> is a reported error that leaves the module as it was.
\<close>

definition isLoaded :: "('s, 'o, 'a, 'e, 'c) Module \<Rightarrow> bool" where
  "isLoaded m = m_hasModule m"

definition isRunning :: "('s, 'o, 'a, 'e, 'c) Module \<Rightarrow> bool" where
  "isRunning m = m_running m"

definition getCurrentArea :: "('s, 'o, 'a, 'e, 'c) Module \<Rightarrow> 'a option" where
  "getCurrentArea m = m_area m"

text \<open>
  Modelled from the spec: \<^verbatim>\<open>changeModule\<close> ("Schedule a change to a new module") only
  records the requested target.
\<close>

definition changeModule ::
  "string \<Rightarrow> string \<Rightarrow> nat \<Rightarrow> ('s, 'o, 'a, 'e, 'c) Module \<Rightarrow> ('s, 'o, 'a, 'e, 'c) Module" where
  "changeModule module entryLocation entryLocationType m =
     m\<lparr>m_newModule := module, m_entryLocation := entryLocation,
       m_entryLocationType := entryLocationType\<rparr>"

text \<open>
  Modelled from the spec: \<^verbatim>\<open>loadModule\<close> ("Load the actual module") fails when the content
  is not found and otherwise makes the module the loaded one.
\<close>

definition loadModule ::
  "(string \<Rightarrow> 'a option) \<Rightarrow> string \<Rightarrow> string \<Rightarrow> nat \<Rightarrow> ('s, 'o, 'a, 'e, 'c) Module
     \<Rightarrow> module_error + ('s, 'o, 'a, 'e, 'c) Module" where
  "loadModule content module entryLocation entryLocationType m =
     (case content module of
        None \<Rightarrow> Inl ContentNotFound
      | Some a \<Rightarrow>
          Inr (m\<lparr>m_hasModule := True, m_module := module, m_newModule := [],
                 m_entryLocation := entryLocation, m_entryLocationType := entryLocationType\<rparr>))"

text \<open>
  Modelled from the spec: \<^verbatim>\<open>load\<close>. "If a module is already loaded, this only records
  the requested target and the scheduled transition is realized on the next tick
  boundary."
\<close>

definition load ::
  "(string \<Rightarrow> 'a option) \<Rightarrow> string \<Rightarrow> string \<Rightarrow> nat \<Rightarrow> ('s, 'o, 'a, 'e, 'c) Module
     \<Rightarrow> module_error + ('s, 'o, 'a, 'e, 'c) Module" where
  "load content module entryLocation entryLocationType m =
     (if isLoaded m then Inr (changeModule module entryLocation entryLocationType m)
      else loadModule content module entryLocation entryLocationType m)"

text \<open>
  Modelled from the spec: \<^verbatim>\<open>enter\<close> requires a loaded module that is not running, loads
  the area and starts the module.
\<close>

definition enter ::
  "(string \<Rightarrow> 'a option) \<Rightarrow> ('s, 'o, 'a, 'e, 'c) Module
     \<Rightarrow> module_error + ('s, 'o, 'a, 'e, 'c) Module" where
  "enter content m =
     (if \<not> isLoaded m \<or> isRunning m then Inl InvalidTransition
      else (case content (m_module m) of
              None \<Rightarrow> Inl ContentNotFound
            | Some a \<Rightarrow> Inr (m\<lparr>m_area := Some a, m_running := True, m_exit := False\<rparr>)))"

text \<open>
  Modelled from the spec: \<^verbatim>\<open>unload\<close> destroys the area and drops every queued event and
  pending action; the player character goes too when the unload is complete.
\<close>

definition unload :: "bool \<Rightarrow> ('s, 'o, 'a, 'e, 'c) Module \<Rightarrow> ('s, 'o, 'a, 'e, 'c) Module" where
  "unload completeUnload m =
     m\<lparr>m_hasModule := False, m_running := False, m_module := [], m_area := None,
       m_eventQueue := [], m_delayedActions := [],
       m_pc := (if completeUnload then None else m_pc m)\<rparr>"

text \<open>
  Modelled from the spec: \<^verbatim>\<open>replaceModule\<close> ("Actually replace the currently running
  module"). With a pending target it unloads the current module, keeping the player
  character, loads the target and enters it.
\<close>

definition replaceModule ::
  "(string \<Rightarrow> 'a option) \<Rightarrow> ('s, 'o, 'a, 'e, 'c) Module
     \<Rightarrow> module_error + ('s, 'o, 'a, 'e, 'c) Module" where
  "replaceModule content m =
     (if m_newModule m = [] then Inr m
      else (case loadModule content (m_newModule m) (m_entryLocation m) (m_entryLocationType m)
                   (unload False m) of
              Inl e \<Rightarrow> Inl e
            | Inr m' \<Rightarrow> enter content m'))"

text \<open>
  Modelled from the spec: one tick of a running module drains the event queue (1),
  drains the actions that are due (2) and, at its end, performs a pending module
  replacement (4). Step (3), the movement of the player character, works on positions,
  which this record does not hold. What the drained events and actions run is not
  part of the model.
\<close>

definition handleEvents :: "('s, 'o, 'a, 'e, 'c) Module \<Rightarrow> ('s, 'o, 'a, 'e, 'c) Module" where
  "handleEvents m = m\<lparr>m_eventQueue := []\<rparr>"

definition handleActions ::
  "32 word \<Rightarrow> ('s, 'o, 'a, 'e, 'c) Module \<Rightarrow> ('s, 'o, 'a, 'e, 'c) Module" where
  "handleActions now m = m\<lparr>m_delayedActions := snd (popReady now (m_delayedActions m))\<rparr>"

definition tick ::
  "(string \<Rightarrow> 'a option) \<Rightarrow> 32 word \<Rightarrow> ('s, 'o, 'a, 'e, 'c) Module
     \<Rightarrow> module_error + ('s, 'o, 'a, 'e, 'c) Module" where
  "tick content now m =
     (if \<not> isRunning m then Inl InvalidTransition
      else replaceModule content (handleActions now (handleEvents m)))"

text \<open>A resource system that knows two modules, and module m1 running in its area.\<close>

definition demo_content :: "string \<Rightarrow> nat option" where
  "demo_content module =
     (if module = ''m1'' then Some 1 else if module = ''m2'' then Some 2 else None)"

definition running_m1 :: "(unit, unit, nat, unit, unit) Module" where
  "running_m1 =
     \<lparr>m_hasModule = True, m_running = True, m_exit = False, m_pc = Some (),
      m_module = ''m1'', m_newModule = [], m_entryLocation = [], m_entryLocationType = 0,
      m_area = Some 1, m_eventQueue = [], m_delayedActions = []\<rparr>"

section \<open>NWN2 engine functions (src/engines/nwn2/script/functions.cpp)\<close>

subsection \<open>The world the functions work on\<close>

text \<open>
  Objects and areas live on the heap and are reached through pointers, and the
  player character may be the very object that is moved. The model keeps a store:
  a pointer to a live object or area is its address, a pointer that may be null is
  an \<open>option\<close>. Coordinates are C++ floats; they are stored and never computed with,
  so their type \<open>'f\<close> stays a parameter.
\<close>

type_synonym objref = nat
type_synonym arearef = nat

text \<open>
  Modelled from the spec: the enum \<^verbatim>\<open>ObjectType\<close> is declared in types.h, which is
  missing. The functions name two of its values; every other value is kept by number.
\<close>

datatype ObjectType = kObjectTypeInvalid | kObjectTypeSelf | kObjectTypeOther nat

text \<open>
  Modelled from the spec: classes \<^verbatim>\<open>Area\<close> and \<^verbatim>\<open>NWN2::Object\<close> are missing. The records
  hold what the functions read and write through the accessors: the resource reference
  of an area; the tag, the type, the area, the position, the visibility and the loaded
  model (the visual representation) of an object.
\<close>

record Area =
  resRef :: string

record 'f Object =
  obj_tag :: string
  obj_type :: ObjectType
  obj_area :: "arearef option"
  obj_position :: "'f \<times> 'f \<times> 'f"
  obj_visible :: bool
  obj_model :: bool

text \<open>
  Every call that leaves functions.cpp is written to a log in the order of the calls:
  the frame lock of the graphics manager, the object's own methods, the module's
  \<^verbatim>\<open>movedPC\<close> and the diagnostic \<^verbatim>\<open>warning\<close>.
\<close>

datatype 'f Call =
    LockFrame
  | UnlockFrame
  | Hide objref
  | UnloadModel objref
  | LoadModel objref
  | Show objref
  | SetArea objref arearef
  | SetPosition objref 'f 'f 'f
  | MovedPC
  | Warning string

text \<open>
  The store: the objects, which script objects are NWN2 objects (the others do not
  survive \<^verbatim>\<open>ObjectContainer::toObject\<close>), the areas, the module's player character and
  the log.
\<close>

record 'f World =
  objs :: "objref \<Rightarrow> 'f Object"
  is_nwn2_object :: "objref \<Rightarrow> bool"
  areas :: "arearef \<Rightarrow> Area"
  pc :: "objref option"
  calls :: "'f Call list"

text \<open>
  A function either runs to its end or dereferences a null pointer on the way. Both
  outcomes carry the state reached.
\<close>

datatype 'a Outcome = Done 'a | Fault 'a

fun state_of :: "'a Outcome \<Rightarrow> 'a" where
  "state_of (Done w) = w"
| "state_of (Fault w) = w"

definition record_call :: "'f Call \<Rightarrow> 'f World \<Rightarrow> 'f World" where
  "record_call c w = w\<lparr>calls := calls w @ [c]\<rparr>"

text \<open>The calls made between two states of the world.\<close>

definition new_calls :: "'f World \<Rightarrow> 'f World \<Rightarrow> 'f Call list" where
  "new_calls w w' = drop (length (calls w)) (calls w')"

text \<open>
  Modelled from the spec: \<^verbatim>\<open>warning\<close>, \<^verbatim>\<open>GfxMan.lockFrame\<close>, \<^verbatim>\<open>GfxMan.unlockFrame\<close> and
  \<^verbatim>\<open>Module::movedPC\<close> are missing; they are consumed, not implemented, by the functions.
  The model records that they were called.
\<close>

definition warning :: "string \<Rightarrow> 'f World \<Rightarrow> 'f World" where
  "warning msg w = record_call (Warning msg) w"

definition lockFrame :: "'f World \<Rightarrow> 'f World" where
  "lockFrame w = record_call LockFrame w"

definition unlockFrame :: "'f World \<Rightarrow> 'f World" where
  "unlockFrame w = record_call UnlockFrame w"

definition movedPC :: "'f World \<Rightarrow> 'f World" where
  "movedPC w = record_call MovedPC w"

text \<open>
  Modelled from the spec: \<^verbatim>\<open>Module::getPC\<close>, \<^verbatim>\<open>ObjectContainer::toObject\<close> and the
  accessors of objects and areas are missing. \<^verbatim>\<open>toObject\<close> resolves a script object to
  the NWN2 object it is: null stays null, and a script object that is no NWN2 object
  resolves to null.
\<close>

definition getPC :: "'f World \<Rightarrow> objref option" where
  "getPC w = pc w"

definition toObject :: "'f World \<Rightarrow> objref option \<Rightarrow> objref option" where
  "toObject w r =
     (case r of None \<Rightarrow> None | Some p \<Rightarrow> if is_nwn2_object w p then Some p else None)"

definition getArea :: "'f World \<Rightarrow> objref \<Rightarrow> arearef option" where
  "getArea w object = obj_area (objs w object)"

definition getType :: "'f World \<Rightarrow> objref \<Rightarrow> ObjectType" where
  "getType w object = obj_type (objs w object)"

definition getTag :: "'f World \<Rightarrow> objref \<Rightarrow> string" where
  "getTag w object = obj_tag (objs w object)"

definition getResRef :: "'f World \<Rightarrow> arearef \<Rightarrow> string" where
  "getResRef w a = resRef (areas w a)"

text \<open>
  Modelled from the spec: the methods of \<^verbatim>\<open>NWN2::Object\<close> that change an object are
  missing. \<^verbatim>\<open>hide\<close> and \<^verbatim>\<open>show\<close> switch the visibility, \<^verbatim>\<open>loadModel\<close> and \<^verbatim>\<open>unloadModel\<close>
  acquire and release the visual representation, \<^verbatim>\<open>setArea\<close> and \<^verbatim>\<open>setPosition\<close> store
  their arguments. Each one changes the object in the store and is logged.
\<close>

definition update_object :: "objref \<Rightarrow> ('f Object \<Rightarrow> 'f Object) \<Rightarrow> 'f World \<Rightarrow> 'f World" where
  "update_object object f w = w\<lparr>objs := (objs w)(object := f (objs w object))\<rparr>"

definition hide :: "objref \<Rightarrow> 'f World \<Rightarrow> 'f World" where
  "hide object w =
     record_call (Hide object) (update_object object (\<lambda>ob. ob\<lparr>obj_visible := False\<rparr>) w)"

definition show_object :: "objref \<Rightarrow> 'f World \<Rightarrow> 'f World" where
  "show_object object w =
     record_call (Show object) (update_object object (\<lambda>ob. ob\<lparr>obj_visible := True\<rparr>) w)"

definition loadModel :: "objref \<Rightarrow> 'f World \<Rightarrow> 'f World" where
  "loadModel object w =
     record_call (LoadModel object) (update_object object (\<lambda>ob. ob\<lparr>obj_model := True\<rparr>) w)"

definition unloadModel :: "objref \<Rightarrow> 'f World \<Rightarrow> 'f World" where
  "unloadModel object w =
     record_call (UnloadModel object) (update_object object (\<lambda>ob. ob\<lparr>obj_model := False\<rparr>) w)"

definition setArea :: "objref \<Rightarrow> arearef \<Rightarrow> 'f World \<Rightarrow> 'f World" where
  "setArea object a w =
     record_call (SetArea object a) (update_object object (\<lambda>ob. ob\<lparr>obj_area := Some a\<rparr>) w)"

definition setPosition :: "objref \<Rightarrow> 'f \<Rightarrow> 'f \<Rightarrow> 'f \<Rightarrow> 'f World \<Rightarrow> 'f World" where
  "setPosition object x y z w =
     record_call (SetPosition object x y z)
       (update_object object (\<lambda>ob. ob\<lparr>obj_position := (x, y, z)\<rparr>) w)"

subsection \<open>Functions::jumpTo\<close>

text \<open>The double quote of the message texts, and \<^verbatim>\<open>%d\<close> applied to a truth value.\<close>

definition dquote :: string where
  "dquote = [CHR 0x22]"

definition format_d :: "bool \<Rightarrow> string" where
  "format_d b = (if b then ''1'' else ''0'')"

text \<open>Lines 193 to 197: the sanity check's report.\<close>

definition jumpTo_no_area :: "arearef option \<Rightarrow> arearef option \<Rightarrow> 'f World \<Rightarrow> 'f World" where
  "jumpTo_no_area objectArea area w =
     warning (''Functions::jumpTo(): No area?!? ('' @ format_d (objectArea \<noteq> None)
                @ '', '' @ format_d (area \<noteq> None) @ '')'') w"

definition moving_msg :: "string \<Rightarrow> string \<Rightarrow> string" where
  "moving_msg areaFrom areaTo =
     ''TODO: Functions::jumpTo(): Moving from '' @ dquote @ areaFrom @ dquote
       @ '' to '' @ dquote @ areaTo @ dquote"

text \<open>
  Lines 202 to 228, the body of \<^verbatim>\<open>if (object->getArea() != area)\<close>. The areas are compared
  by their resource references. \<^verbatim>\<open>pc->getArea()->getResRef()\<close> on line 210 dereferences
  the area of the player character without a check: with no area there, the function
  faults, the frame being locked.
\<close>

definition jumpTo_change_area ::
  "objref \<Rightarrow> arearef \<Rightarrow> arearef \<Rightarrow> 'f World \<Rightarrow> 'f World Outcome" where
  "jumpTo_change_area object from area w =
     (let areaFrom = getResRef w from;
          areaTo = getResRef w area;
          w1 = warning (moving_msg areaFrom areaTo) w
      in case toObject w1 (getPC w1) of
           None \<Rightarrow> Done (setArea object area w1)
         | Some p \<Rightarrow>
             (case getArea w1 p of
                None \<Rightarrow> Fault w1
              | Some pa \<Rightarrow>
                  (let pcArea = getResRef w1 pa;
                       w2 = (if areaFrom = pcArea then unloadModel object (hide object w1)
                             else if areaTo = pcArea then show_object object (loadModel object w1)
                             else w1)
                   in Done (setArea object area w2))))"

text \<open>Lines 230 to 236: position, unlock, and the notification for the player character.\<close>

definition jumpTo_finish :: "objref \<Rightarrow> 'f \<Rightarrow> 'f \<Rightarrow> 'f \<Rightarrow> 'f World \<Rightarrow> 'f World Outcome" where
  "jumpTo_finish object x y z w =
     (let w1 = setPosition object x y z w;
          w2 = unlockFrame w1
      in if Some object = getPC w2 then Done (movedPC w2) else Done w2)"

text \<open>
  \<^verbatim>\<open>void Functions::jumpTo(NWN2::Object *object, Area *area, float x, float y, float z)\<close>.
  The function dereferences \<open>object\<close> in its first expression, so the object is a
  pointer to a live object; the area may be null.
\<close>

definition jumpTo ::
  "objref \<Rightarrow> arearef option \<Rightarrow> 'f \<Rightarrow> 'f \<Rightarrow> 'f \<Rightarrow> 'f World \<Rightarrow> 'f World Outcome" where
  "jumpTo object area x y z w =
     (case (getArea w object, area) of
        (Some from, Some to) \<Rightarrow>
          (let w1 = lockFrame w
           in case (if getArea w1 object \<noteq> area
                    then jumpTo_change_area object from to w1
                    else Done w1) of
                Fault w2 \<Rightarrow> Fault w2
              | Done w2 \<Rightarrow> jumpTo_finish object x y z w2)
      | _ \<Rightarrow> Done (jumpTo_no_area (getArea w object) area w))"




text \<open>The player character, when there is one, is in an area.\<close>

definition pc_in_area :: "'f World \<Rightarrow> bool" where
  "pc_in_area w =
     (case toObject w (getPC w) of None \<Rightarrow> True | Some p \<Rightarrow> getArea w p \<noteq> None)"

text \<open>The calls that end a relocation.\<close>

definition finish_calls :: "'f World \<Rightarrow> objref \<Rightarrow> 'f \<Rightarrow> 'f \<Rightarrow> 'f \<Rightarrow> 'f Call list" where
  "finish_calls w object x y z =
     [SetPosition object x y z, UnlockFrame] @ (if Some object = pc w then [MovedPC] else [])"

text \<open>
  A world for examples: object 1 stands in area 10, object 2 is the player character
  in the area given, areas 10, 20 and all others have the resource references
  a10, a20 and a30.
\<close>

definition sample_world :: "arearef option \<Rightarrow> int World" where
  "sample_world pcArea =
     \<lparr>objs = (\<lambda>p. \<lparr>obj_tag = [], obj_type = kObjectTypeOther 0,
                    obj_area = (if p = 1 then Some 10 else if p = 2 then pcArea else None),
                    obj_position = (0, 0, 0), obj_visible = True, obj_model = True\<rparr>),
      is_nwn2_object = (\<lambda>p. True),
      areas = (\<lambda>a. \<lparr>resRef = (if a = 10 then ''a10'' else if a = 20 then ''a20'' else ''a30'')\<rparr>),
      pc = Some 2,
      calls = []\<rparr>"


subsection \<open>Script variables and the function context\<close>

text \<open>
  Modelled from the spec: \<^verbatim>\<open>Aurora::NWScript::Variable\<close> and \<^verbatim>\<open>FunctionContext\<close> are
  missing. The spec names the nine parameter and return types, which are also the
  cases of the switch in \<^verbatim>\<open>formatParams\<close>. A variable is a value tagged with its type;
  structs, engine types and script states are opaque here. A new variable holds the
  zero or empty value of its type.
\<close>

datatype Type =
    kTypeVoid | kTypeInt | kTypeFloat | kTypeString | kTypeObject
  | kTypeVector | kTypeStruct | kTypeEngineType | kTypeScriptState

datatype 'f Variable =
    VVoid
  | VInt int
  | VFloat 'f
  | VString string
  | VObject "objref option"
  | VVector 'f 'f 'f
  | VStruct
  | VEngineType
  | VScriptState

fun Variable_getType :: "'f Variable \<Rightarrow> Type" where
  "Variable_getType VVoid = kTypeVoid"
| "Variable_getType (VInt i) = kTypeInt"
| "Variable_getType (VFloat f) = kTypeFloat"
| "Variable_getType (VString s) = kTypeString"
| "Variable_getType (VObject r) = kTypeObject"
| "Variable_getType (VVector x y z) = kTypeVector"
| "Variable_getType VStruct = kTypeStruct"
| "Variable_getType VEngineType = kTypeEngineType"
| "Variable_getType VScriptState = kTypeScriptState"

fun Variable_new :: "Type \<Rightarrow> ('f::zero) Variable" where
  "Variable_new kTypeVoid = VVoid"
| "Variable_new kTypeInt = VInt 0"
| "Variable_new kTypeFloat = VFloat 0"
| "Variable_new kTypeString = VString []"
| "Variable_new kTypeObject = VObject None"
| "Variable_new kTypeVector = VVector 0 0 0"
| "Variable_new kTypeStruct = VStruct"
| "Variable_new kTypeEngineType = VEngineType"
| "Variable_new kTypeScriptState = VScriptState"

text \<open>
  Reading a parameter fails when the index is past the end of the parameter vector,
  or when an object is asked of a variable of another type.
\<close>

datatype param_error = IndexOutOfRange | NotAnObject

fun getObject :: "'f Variable \<Rightarrow> param_error + objref option" where
  "getObject (VObject r) = Inr r"
| "getObject v = Inl NotAnObject"

record 'f FunctionContext =
  ctx_name :: string
  ctx_params :: "'f Variable list"
  ctx_caller :: "objref option"
  ctx_return :: "'f Variable"

definition getName :: "'f FunctionContext \<Rightarrow> string" where
  "getName ctx = ctx_name ctx"

definition getParams :: "'f FunctionContext \<Rightarrow> 'f Variable list" where
  "getParams ctx = ctx_params ctx"

definition getCaller :: "'f FunctionContext \<Rightarrow> objref option" where
  "getCaller ctx = ctx_caller ctx"

text \<open>
  Modelled from the spec: the context the script host builds for a call holds the
  zero or empty value of the return type until the function writes its result.
\<close>

definition FunctionContext_new ::
  "string \<Rightarrow> Type \<Rightarrow> 'f Variable list \<Rightarrow> objref option \<Rightarrow> ('f::zero) FunctionContext" where
  "FunctionContext_new name returnType params caller =
     \<lparr>ctx_name = name, ctx_params = params, ctx_caller = caller,
      ctx_return = Variable_new returnType\<rparr>"

subsection \<open>Functions::getParamObject\<close>

definition getParamObject ::
  "'f World \<Rightarrow> 'f FunctionContext \<Rightarrow> nat \<Rightarrow> param_error + objref option" where
  "getParamObject w ctx n =
     (if n < length (getParams ctx)
      then (case getObject (getParams ctx ! n) of
              Inl e \<Rightarrow> Inl e
            | Inr r \<Rightarrow>
                (case toObject w r of
                   None \<Rightarrow> Inr None
                 | Some object \<Rightarrow>
                     if getType w object = kObjectTypeInvalid then Inr None
                     else if getType w object = kObjectTypeSelf then Inr (getCaller ctx)
                     else Inr (Some object)))
      else Inl IndexOutOfRange)"

subsection \<open>Functions::formatTag, formatParams and unimplementedFunction\<close>

text \<open>
  \<^verbatim>\<open>Common::composeString\<close> (strutil.h) is missing; how it prints an integer and a float
  is a parameter of the model.
\<close>

record 'f strutil =
  composeString_int :: "int \<Rightarrow> string"
  composeString_float :: "'f \<Rightarrow> string"

definition formatTag :: "'f World \<Rightarrow> objref option \<Rightarrow> string" where
  "formatTag w object =
     (case object of None \<Rightarrow> ''0'' | Some p \<Rightarrow> dquote @ getTag w p @ dquote)"

fun formatParam :: "'f strutil \<Rightarrow> 'f World \<Rightarrow> 'f Variable \<Rightarrow> string" where
  "formatParam su w VVoid = ''<void>''"
| "formatParam su w (VInt i) = composeString_int su i"
| "formatParam su w (VFloat f) = composeString_float su f"
| "formatParam su w (VString s) = dquote @ s @ dquote"
| "formatParam su w (VObject r) = ''<object>('' @ formatTag w r @ '')''"
| "formatParam su w (VVector x y z) =
     ''('' @ (composeString_float su x @ '', '') @ (composeString_float su y @ '', '')
       @ composeString_float su z @ '')''"
| "formatParam su w VStruct = ''<struct>''"
| "formatParam su w VEngineType = ''<engine>''"
| "formatParam su w VScriptState = ''<state>''"

text \<open>The loop of \<^verbatim>\<open>formatParams\<close> from parameter \<open>i\<close> on, \<open>params\<close> the text so far.\<close>

fun formatParams_from ::
  "'f strutil \<Rightarrow> 'f World \<Rightarrow> nat \<Rightarrow> 'f Variable list \<Rightarrow> string \<Rightarrow> string" where
  "formatParams_from su w i [] params = params"
| "formatParams_from su w i (v # vs) params =
     formatParams_from su w (Suc i) vs
       ((if i \<noteq> 0 then params @ '', '' else params) @ formatParam su w v)"

definition formatParams :: "'f strutil \<Rightarrow> 'f World \<Rightarrow> 'f FunctionContext \<Rightarrow> string" where
  "formatParams su w ctx = formatParams_from su w 0 (getParams ctx) []"

text \<open>
  An engine function takes the context by reference and works on the world; it may
  write the context's return value.
\<close>

type_synonym 'f funcPtr =
  "'f FunctionContext \<Rightarrow> 'f World \<Rightarrow> ('f FunctionContext \<times> 'f World) Outcome"

definition unimplementedFunction :: "'f strutil \<Rightarrow> 'f funcPtr" where
  "unimplementedFunction su ctx w =
     Done (ctx, warning (''TODO: '' @ getName ctx @ ''('' @ formatParams su w ctx @ '')'') w)"

subsection \<open>Functions::registerFunctions\<close>

text \<open>
  The three tables of function_tables.h are missing and are parameters: one row per
  function with its implementation (null when there is none), its signature (a fixed
  array of parameter types closed by \<^verbatim>\<open>kTypeVoid\<close>) and its defaults (a fixed array of
  pointers closed by null).
\<close>

record 'f FunctionPointer =
  fp_id :: "32 word"
  fp_name :: string
  fp_func :: "'f funcPtr option"

record FunctionSignature =
  fs_id :: "32 word"
  fs_returnType :: Type
  fs_parameters :: "Type list"

record 'f FunctionDefaults =
  fd_id :: "32 word"
  fd_defaults :: "'f Variable option list"

text \<open>
  Modelled from the spec: \<^verbatim>\<open>FunctionMan.registerFunction(name, id, callable, signature,
  defaults)\<close> is missing. The registry is the list of the registrations made, in order.
\<close>

record 'f Registration =
  reg_name :: string
  reg_id :: "32 word"
  reg_func :: "'f funcPtr"
  reg_signature :: "Type list"
  reg_defaults :: "'f Variable list"

definition registerFunction ::
  "string \<Rightarrow> 32 word \<Rightarrow> 'f funcPtr \<Rightarrow> Type list \<Rightarrow> 'f Variable list
     \<Rightarrow> 'f Registration list \<Rightarrow> 'f Registration list" where
  "registerFunction name id' f signature defaults reg =
     reg @ [\<lparr>reg_name = name, reg_id = id', reg_func = f, reg_signature = signature,
             reg_defaults = defaults\<rparr>]"

fun signature_parameters :: "Type list \<Rightarrow> Type list" where
  "signature_parameters [] = []"
| "signature_parameters (t # ts) = (if t = kTypeVoid then [] else t # signature_parameters ts)"

fun default_parameters :: "'f Variable option list \<Rightarrow> 'f Variable list" where
  "default_parameters [] = []"
| "default_parameters (None # ds) = []"
| "default_parameters (Some v # ds) = v # default_parameters ds"

text \<open>
  The loop over the rows. The assertion on the ids of a row aborts the registration:
  the result is \<open>None\<close>. The last equation, a row of functions without its row of
  signatures or defaults, is excluded by the assertions on the table sizes.
\<close>

fun registerFunctions_loop ::
  "'f strutil \<Rightarrow> 'f FunctionPointer list \<Rightarrow> FunctionSignature list \<Rightarrow> 'f FunctionDefaults list
     \<Rightarrow> 'f Registration list \<Rightarrow> 'f Registration list option" where
  "registerFunctions_loop su [] ss ds reg = Some reg"
| "registerFunctions_loop su (fPtr # ps) (fSig # ss) (fDef # ds) reg =
     (if fs_id fSig = fp_id fPtr \<and> fd_id fDef = fp_id fPtr
      then
        (let signature = fs_returnType fSig # signature_parameters (fs_parameters fSig);
             defaults = default_parameters (fd_defaults fDef);
             f = (case fp_func fPtr of Some g \<Rightarrow> g | None \<Rightarrow> unimplementedFunction su)
         in registerFunctions_loop su ps ss ds
              (registerFunction (fp_name fPtr) (fp_id fPtr) f signature defaults reg))
      else None)"
| "registerFunctions_loop su (fPtr # ps) ss ds reg = None"

definition registerFunctions ::
  "'f strutil \<Rightarrow> 'f FunctionPointer list \<Rightarrow> FunctionSignature list \<Rightarrow> 'f FunctionDefaults list
     \<Rightarrow> 'f Registration list \<Rightarrow> 'f Registration list option" where
  "registerFunctions su kFunctionPointers kFunctionSignatures kFunctionDefaults reg =
     (if length kFunctionPointers = length kFunctionSignatures
         \<and> length kFunctionPointers = length kFunctionDefaults
      then registerFunctions_loop su kFunctionPointers kFunctionSignatures kFunctionDefaults reg
      else None)"

text \<open>
  Examples: a world in which object 3 is the marker of type self and object 4 is of
  the invalid type; a context whose first parameter is the marker; one table row
  without an implementation.
\<close>

definition script_world :: "int World" where
  "script_world =
     \<lparr>objs = (\<lambda>p. \<lparr>obj_tag = (if p = 3 then ''self'' else ''obj''),
                    obj_type = (if p = 3 then kObjectTypeSelf
                                else if p = 4 then kObjectTypeInvalid else kObjectTypeOther 1),
                    obj_area = Some 10,
                    obj_position = (0, 0, 0), obj_visible = True, obj_model = True\<rparr>),
      is_nwn2_object = (\<lambda>p. True),
      areas = (\<lambda>a. \<lparr>resRef = ''a10''\<rparr>),
      pc = None,
      calls = []\<rparr>"

definition self_ctx :: "objref option \<Rightarrow> int FunctionContext" where
  "self_ctx caller =
     \<lparr>ctx_name = ''GetTag'', ctx_params = [VObject (Some 3), VInt 7, VObject (Some 5)],
      ctx_caller = caller, ctx_return = VString []\<rparr>"

definition demo_strutil :: "int strutil" where
  "demo_strutil = \<lparr>composeString_int = (\<lambda>i. if i = 7 then ''7'' else ''?''),
                    composeString_float = (\<lambda>f. ''0.0'')\<rparr>"

definition demo_pointers :: "int FunctionPointer list" where
  "demo_pointers = [\<lparr>fp_id = 0, fp_name = ''Random'', fp_func = None\<rparr>]"

definition demo_signatures :: "FunctionSignature list" where
  "demo_signatures =
     [\<lparr>fs_id = 0, fs_returnType = kTypeInt, fs_parameters = [kTypeInt, kTypeVoid, kTypeVoid]\<rparr>]"

definition demo_defaults :: "int FunctionDefaults list" where
  "demo_defaults = [\<lparr>fd_id = 0, fd_defaults = [None, None, None]\<rparr>]"

definition demo_registry :: "int Registration list" where
  "demo_registry =
     [\<lparr>reg_name = ''Random'', reg_id = 0, reg_func = unimplementedFunction demo_strutil,
       reg_signature = [kTypeInt, kTypeInt], reg_defaults = []\<rparr>]"

subsection \<open>Functions::getRandom\<close>

text \<open>
  \<^verbatim>\<open>int32 Functions::getRandom(int min, int max, int32 n)\<close>. The parameters and the sum
  are 32-bit signed integers: values of type \<open>int\<close>, every result of the arithmetic
  wrapped into the 32-bit range. \<^verbatim>\<open>%\<close> truncates towards zero (\<open>smod\<close>) and traps on
  a zero divisor. \<open>rand j\<close> is what the \<open>j\<close>-th call of \<^verbatim>\<open>std::rand()\<close> from now on
  returns, a non-negative number. The parameters are \<open>mn\<close> and \<open>mx\<close> for
  \<^verbatim>\<open>min\<close> and \<^verbatim>\<open>max\<close>.
\<close>

definition INT32_MIN :: int where
  "INT32_MIN = - (2 ^ 31)"

definition INT32_MAX :: int where
  "INT32_MAX = 2 ^ 31 - 1"

definition wrap32 :: "int \<Rightarrow> int" where
  "wrap32 i = (i + 2 ^ 31) mod 2 ^ 32 - 2 ^ 31"

datatype arith_error = DivisionByZero

text \<open>
  \<^verbatim>\<open>while (n-- > 0) r += std::rand() % (max - min + 1) + min;\<close> with \<open>i\<close> the number
  of draws made. The decrement starts from a positive \<open>n\<close> and cannot wrap.
\<close>

function getRandom_loop ::
  "(nat \<Rightarrow> nat) \<Rightarrow> nat \<Rightarrow> int \<Rightarrow> int \<Rightarrow> int \<Rightarrow> int \<Rightarrow> arith_error + int" where
  "getRandom_loop rand i mn mx n r =
     (if n > 0
      then (let m = wrap32 (wrap32 (mx - mn) + 1)
            in if m = 0 then Inl DivisionByZero
               else getRandom_loop rand (Suc i) mn mx (n - 1)
                      (wrap32 (r + wrap32 (int (rand i) smod m + mn))))
      else Inr r)"
  by pat_completeness auto
termination
  by (relation "measure (\<lambda>(rand, i, mn, mx, n, r). nat n)") auto

definition getRandom :: "(nat \<Rightarrow> nat) \<Rightarrow> int \<Rightarrow> int \<Rightarrow> int \<Rightarrow> arith_error + int" where
  "getRandom rand mn mx n = getRandom_loop rand 0 mn mx (if n < 1 then 1 else n) 0"

text \<open>One draw: the \<open>j\<close>-th value of the generator reduced into the range.\<close>

definition draw :: "(nat \<Rightarrow> nat) \<Rightarrow> int \<Rightarrow> int \<Rightarrow> nat \<Rightarrow> int" where
  "draw rand mn mx j = int (rand j) mod (mx - mn + 1) + mn"

text \<open>A generator for examples.\<close>

definition sevens :: "nat \<Rightarrow> nat" where
  "sevens j = 7"

section \<open>The deferred-action queue\<close>

lemma mset_multiset_insert: "mset (multiset_insert a q) = add_mset a (mset q)"
  by (induction q) simp_all

lemma set_multiset_insert: "set (multiset_insert a q) = insert a (set q)"
  by (induction q) auto

lemma sorted_multiset_insert:
  "sorted (map timestamp q) \<Longrightarrow> sorted (map timestamp (multiset_insert a q))"
  by (induction q) (auto simp: Action_less_def set_multiset_insert)

lemma filter_multiset_insert:
  "sorted (map timestamp q) \<Longrightarrow>
   filter (\<lambda>b. timestamp b = t) (multiset_insert a q) =
     filter (\<lambda>b. timestamp b = t) q @ (if timestamp a = t then [a] else [])"
proof (induction q)
  case Nil
  then show ?case by simp
next
  case (Cons b q)
  show ?case
  proof (cases "Action_less a b")
    case True
    then have "\<forall>c \<in> set (b # q). timestamp a < timestamp c"
      using Cons.prems by (auto simp: Action_less_def)
    then have "filter (\<lambda>c. timestamp c = t) (b # q) = []" if "timestamp a = t"
      using that by (auto simp: filter_empty_conv)
    with True show ?thesis by auto
  next
    case False
    with Cons show ?thesis by simp
  qed
qed

lemma insert_all_snoc: "insert_all (xs @ [x]) = multiset_insert x (insert_all xs)"
  by (simp add: insert_all_def)

lemma sorted_insert_all: "sorted (map timestamp (insert_all xs))"
  by (induction xs rule: rev_induct) (simp_all add: insert_all_def sorted_multiset_insert)

lemma mset_insert_all: "mset (insert_all xs) = mset xs"
  by (induction xs rule: rev_induct) (simp_all add: insert_all_def mset_multiset_insert)

lemma filter_insert_all:
  "filter (\<lambda>b. timestamp b = t) (insert_all xs) = filter (\<lambda>b. timestamp b = t) xs"
proof (induction xs rule: rev_induct)
  case Nil
  then show ?case by (simp add: insert_all_def)
next
  case (snoc x xs)
  then show ?case
    by (simp add: insert_all_snoc filter_multiset_insert [OF sorted_insert_all])
qed

lemma insert_all_sort_key: "insert_all xs = sort_key timestamp xs"
proof (rule sym, rule properties_for_sort_key)
  show "mset (insert_all xs) = mset xs" by (rule mset_insert_all)
  show "sorted (map timestamp (insert_all xs))" by (rule sorted_insert_all)
  fix k
  show "filter (\<lambda>x. timestamp k = timestamp x) (insert_all xs) =
        filter (\<lambda>x. timestamp k = timestamp x) xs"
    using filter_insert_all [of "timestamp k" xs] by (simp add: eq_commute)
qed

text \<open>
  C1. After any sequence \<open>xs\<close> of inserts, \<open>popReady T\<close> returns exactly the inserted
  actions with timestamp at most \<open>T\<close>, ordered by timestamp ascending and, among equal
  timestamps, in insertion order: the returned list is the stable sort by timestamp of
  the qualifying subsequence of \<open>xs\<close>, it is sorted, and for every timestamp \<open>t\<close> its
  actions with timestamp \<open>t\<close> are those of the subsequence in their inserted order. The
  queue left behind holds the other inserted actions.
\<close>

theorem popReady_stable_order:
  fixes xs :: "('s, 'o) Action list"
  shows "fst (popReady T (insert_all xs)) =
           sort_key timestamp (filter (\<lambda>a. timestamp a \<le> T) xs)
    \<and> sorted (map timestamp (fst (popReady T (insert_all xs))))
    \<and> (\<forall>t. filter (\<lambda>a. timestamp a = t) (fst (popReady T (insert_all xs))) =
            filter (\<lambda>a. timestamp a = t) (filter (\<lambda>a. timestamp a \<le> T) xs))
    \<and> snd (popReady T (insert_all xs)) =
           insert_all (filter (\<lambda>a. \<not> timestamp a \<le> T) xs)"
proof -
  have r: "fst (popReady T (insert_all xs)) =
             sort_key timestamp (filter (\<lambda>a. timestamp a \<le> T) xs)"
    by (simp add: popReady_def insert_all_sort_key filter_sort)
  have s: "snd (popReady T (insert_all xs)) =
             insert_all (filter (\<lambda>a. \<not> timestamp a \<le> T) xs)"
    by (simp add: popReady_def insert_all_sort_key filter_sort)
  have f: "filter (\<lambda>a. timestamp a = t) (sort_key timestamp ys) =
           filter (\<lambda>a. timestamp a = t) ys"
    for t and ys :: "('s, 'o) Action list"
    using filter_insert_all [of t ys] by (simp add: insert_all_sort_key)
  show ?thesis
    unfolding r s by (simp add: f)
qed

section \<open>Module changes\<close>

text \<open>
  C2. While a module is loaded, \<open>load\<close> does not swap the module: it only records
  the requested target. The current area, the module's name, the player character and
  both queues are what they were, so an observer such as \<open>getCurrentArea\<close> still
  sees the previous module, also after the next tick has drained its events and
  actions. When the module is running, the end of that tick performs the
  replacement of a target that is named and that the resource system resolves: after
  the tick the requested module is the loaded and running one, in its own area, and no
  target is pending.
\<close>

theorem load_defers_replacement:
  fixes m :: "('s, 'o, 'a, 'e, 'c) Module"
  assumes "isLoaded m"
  shows "load content name el elt m = Inr (changeModule name el elt m)
       \<and> m_newModule (changeModule name el elt m) = name
       \<and> getCurrentArea (changeModule name el elt m) = getCurrentArea m
       \<and> m_module (changeModule name el elt m) = m_module m
       \<and> isLoaded (changeModule name el elt m)
       \<and> isRunning (changeModule name el elt m) = isRunning m
       \<and> m_pc (changeModule name el elt m) = m_pc m
       \<and> m_eventQueue (changeModule name el elt m) = m_eventQueue m
       \<and> m_delayedActions (changeModule name el elt m) = m_delayedActions m
       \<and> getCurrentArea (handleActions now (handleEvents (changeModule name el elt m))) =
           getCurrentArea m
       \<and> (isRunning m \<and> name \<noteq> [] \<and> content name = Some a \<longrightarrow>
            (\<exists>m'. tick content now (changeModule name el elt m) = Inr m'
              \<and> m_module m' = name \<and> getCurrentArea m' = Some a
              \<and> m_newModule m' = [] \<and> isLoaded m' \<and> isRunning m' \<and> m_pc m' = m_pc m))"
  using assms
  by (simp add: load_def changeModule_def getCurrentArea_def isLoaded_def isRunning_def tick_def
      replaceModule_def loadModule_def unload_def enter_def handleActions_def handleEvents_def)

text \<open>
  Module m1 runs in area 1 and \<open>load\<close> asks for m2: the area seen stays 1 until the
  tick, after which it is area 2 of m2.
\<close>

theorem load_defers_replacement_witness:
  "isLoaded running_m1 \<and> isRunning running_m1 \<and> ''m2'' \<noteq> [] \<and> demo_content ''m2'' = Some 2
   \<and> load demo_content ''m2'' [] 0 running_m1 = Inr (changeModule ''m2'' [] 0 running_m1)
   \<and> getCurrentArea (changeModule ''m2'' [] 0 running_m1) = Some 1
   \<and> m_module (changeModule ''m2'' [] 0 running_m1) = ''m1''
   \<and> (\<exists>m'. tick demo_content 0 (changeModule ''m2'' [] 0 running_m1) = Inr m'
          \<and> m_module m' = ''m2'' \<and> getCurrentArea m' = Some 2)"
proof -
  have l: "isLoaded running_m1"
    by (simp add: isLoaded_def running_m1_def)
  have h: "isRunning running_m1" "''m2'' \<noteq> []" "demo_content ''m2'' = Some 2"
    by (simp_all add: isRunning_def running_m1_def demo_content_def)
  have g: "getCurrentArea running_m1 = Some 1" "m_module running_m1 = ''m1''"
    by (simp_all add: getCurrentArea_def running_m1_def)
  from load_defers_replacement [where m = running_m1 and name = "''m2''" and content = demo_content
      and a = 2 and el = "[]" and elt = 0 and now = 0, OF l] l h g
  show ?thesis by auto
qed

section \<open>Relocation of an object: jumpTo\<close>

lemmas world_ops =
  record_call_def warning_def lockFrame_def unlockFrame_def movedPC_def getPC_def toObject_def
  getArea_def getResRef_def update_object_def hide_def show_object_def loadModel_def
  unloadModel_def setArea_def setPosition_def

lemma jumpTo_error_path:
  "getArea w object = None \<or> area = None \<Longrightarrow>
   jumpTo object area x y z w = Done (jumpTo_no_area (getArea w object) area w)"
  by (auto simp: jumpTo_def split: option.splits)

text \<open>
  C3. When the object has no area or the destination area is null, \<open>jumpTo\<close> reports
  the error (one warning) and changes nothing else: every object, and so the area,
  the position and the visibility of the object to move, is as before, and the frame
  lock is not taken.
\<close>

theorem jumpTo_precondition_violated:
  assumes "getArea w object = None \<or> area = None"
  shows "\<exists>w' msg. jumpTo object area x y z w = Done w'
           \<and> calls w' = calls w @ [Warning msg]
           \<and> objs w' = objs w \<and> pc w' = pc w \<and> areas w' = areas w
           \<and> getArea w' object = getArea w object
           \<and> obj_position (objs w' object) = obj_position (objs w object)
           \<and> obj_visible (objs w' object) = obj_visible (objs w object)
           \<and> LockFrame \<notin> set (new_calls w w')"
  using jumpTo_error_path [OF assms, of x y z]
  by (simp add: jumpTo_no_area_def new_calls_def world_ops)

text \<open>Object 2 of the sample world has no area; object 1 is sent to the null area.\<close>

theorem jumpTo_precondition_violated_witness:
  "(getArea (sample_world None) 2 = None \<or> Some 20 = (None :: arearef option))
   \<and> jumpTo 2 (Some 20) 5 6 7 (sample_world None) =
       Done (jumpTo_no_area None (Some 20) (sample_world None))
   \<and> LockFrame \<notin> set (new_calls (sample_world None)
                          (state_of (jumpTo 2 (Some 20) 5 6 7 (sample_world None))))
   \<and> (getArea (sample_world None) 1 = None \<or> (None :: arearef option) = None)
   \<and> jumpTo 1 None 5 6 7 (sample_world None) =
       Done (jumpTo_no_area (Some 10) None (sample_world None))"
proof -
  have h2: "getArea (sample_world None) 2 = None \<or> Some 20 = (None :: arearef option)"
    by (simp add: getArea_def sample_world_def)
  have h1: "getArea (sample_world None) 1 = None \<or> (None :: arearef option) = None"
    by simp
  have a1: "getArea (sample_world None) 1 = Some 10" and a2: "getArea (sample_world None) 2 = None"
    by (simp_all add: getArea_def sample_world_def)
  from jumpTo_precondition_violated [OF h2, of 5 6 7]
  obtain w' msg where r2: "jumpTo 2 (Some 20) 5 6 7 (sample_world None) = Done w'"
    and l2: "LockFrame \<notin> set (new_calls (sample_world None) w')"
    by blast
  from jumpTo_precondition_violated [OF h1, of 5 6 7]
  obtain w'' where r1: "jumpTo 1 None 5 6 7 (sample_world None) = Done w''"
    by blast
  have e2: "jumpTo 2 (Some 20) 5 6 7 (sample_world None) =
              Done (jumpTo_no_area None (Some 20) (sample_world None))"
    using jumpTo_error_path [OF h2, of 5 6 7] unfolding a2 .
  have e1: "jumpTo 1 None 5 6 7 (sample_world None) =
              Done (jumpTo_no_area (Some 10) None (sample_world None))"
    using jumpTo_error_path [OF h1, of 5 6 7] unfolding a1 .
  from h2 h1 e2 e1 r2 l2 show ?thesis by simp
qed

text \<open>The calls of a relocation whose precondition holds, in their order.\<close>

lemma new_calls_jumpTo:
  assumes "getArea w object = Some from"
  shows "new_calls w (state_of (jumpTo object (Some to) x y z w)) =
     LockFrame #
       (if from = to then finish_calls w object x y z
        else Warning (moving_msg (getResRef w from) (getResRef w to)) #
          (case toObject w (pc w) of
             None \<Rightarrow> SetArea object to # finish_calls w object x y z
           | Some p \<Rightarrow>
               (case getArea w p of
                  None \<Rightarrow> []
                | Some pa \<Rightarrow>
                    (if getResRef w from = getResRef w pa then [Hide object, UnloadModel object]
                     else if getResRef w to = getResRef w pa then [LoadModel object, Show object]
                     else []) @ SetArea object to # finish_calls w object x y z)))"
  using assms
  by (simp add: jumpTo_def jumpTo_change_area_def jumpTo_finish_def new_calls_def
      finish_calls_def world_ops Let_def split: option.splits)

lemma jumpTo_outcome:
  assumes "getArea w object = Some from"
  shows "jumpTo object (Some to) x y z w =
     (if from = to \<or> pc_in_area w
      then Done (state_of (jumpTo object (Some to) x y z w))
      else Fault (state_of (jumpTo object (Some to) x y z w)))"
  using assms
  by (simp add: jumpTo_def jumpTo_change_area_def jumpTo_finish_def pc_in_area_def
      world_ops Let_def split: option.splits)








lemma jumpTo_relocates:
  assumes "getArea w object = Some from" and "from = to \<or> pc_in_area w"
  shows "\<exists>w'. jumpTo object (Some to) x y z w = Done w'
           \<and> getArea w' object = Some to \<and> obj_position (objs w' object) = (x, y, z)"
  using assms
  by (auto simp add: jumpTo_def jumpTo_change_area_def jumpTo_finish_def pc_in_area_def
      world_ops Let_def split: option.splits)

lemma jumpTo_lock_paired:
  assumes "getArea w object = Some from" and "from = to \<or> pc_in_area w"
  shows "\<exists>w'. jumpTo object (Some to) x y z w = Done w'
           \<and> hd (new_calls w w') = LockFrame
           \<and> count_list (new_calls w w') LockFrame = 1
           \<and> count_list (new_calls w w') UnlockFrame = 1
           \<and> (last (new_calls w w') = UnlockFrame
                \<or> last (new_calls w w') = MovedPC \<and> last (butlast (new_calls w w')) = UnlockFrame)"
proof -
  from jumpTo_outcome [OF assms(1), of to x y z] assms(2)
  have d: "jumpTo object (Some to) x y z w = Done (state_of (jumpTo object (Some to) x y z w))"
    by simp
  have n: "hd (new_calls w (state_of (jumpTo object (Some to) x y z w))) = LockFrame
      \<and> count_list (new_calls w (state_of (jumpTo object (Some to) x y z w))) LockFrame = 1
      \<and> count_list (new_calls w (state_of (jumpTo object (Some to) x y z w))) UnlockFrame = 1
      \<and> (last (new_calls w (state_of (jumpTo object (Some to) x y z w))) = UnlockFrame
          \<or> last (new_calls w (state_of (jumpTo object (Some to) x y z w))) = MovedPC
            \<and> last (butlast (new_calls w (state_of (jumpTo object (Some to) x y z w)))) = UnlockFrame)"
    using assms(2)
    unfolding new_calls_jumpTo [OF assms(1)] finish_calls_def pc_in_area_def getPC_def
    by (auto split: option.splits)
  from d n show ?thesis by metis
qed

text \<open>
  C5. In the sample world the player character (object 2) is in no area. Object 1
  stands in area 10 and is sent to area 20, so the precondition holds. The call
  faults on the player character's null area before it reaches \<open>setArea\<close> and
  \<open>setPosition\<close>: the object is still in area 10 at its old position.
\<close>

theorem jumpTo_faults_before_relocation:
  "getArea (sample_world None) 1 = Some 10
   \<and> jumpTo 1 (Some 20) 5 6 7 (sample_world None) =
       Fault ((sample_world None)\<lparr>calls := [LockFrame, Warning (moving_msg ''a10'' ''a20'')]\<rparr>)
   \<and> getArea (state_of (jumpTo 1 (Some 20) 5 6 7 (sample_world None))) 1 = Some 10
   \<and> obj_position (objs (state_of (jumpTo 1 (Some 20) 5 6 7 (sample_world None))) 1) = (0, 0, 0)"
  by (simp add: jumpTo_def jumpTo_change_area_def world_ops sample_world_def Let_def)

text \<open>
  C6. On the same call the frame lock is taken and never released: the calls made are
  \<open>lockFrame\<close> and the warning, and the function faults with the frame locked.
\<close>

theorem jumpTo_faults_with_frame_locked:
  "new_calls (sample_world None) (state_of (jumpTo 1 (Some 20) 5 6 7 (sample_world None))) =
       [LockFrame, Warning (moving_msg ''a10'' ''a20'')]
   \<and> count_list (new_calls (sample_world None)
        (state_of (jumpTo 1 (Some 20) 5 6 7 (sample_world None)))) LockFrame = 1
   \<and> count_list (new_calls (sample_world None)
        (state_of (jumpTo 1 (Some 20) 5 6 7 (sample_world None)))) UnlockFrame = 0
   \<and> jumpTo 1 (Some 20) 5 6 7 (sample_world None) \<noteq>
       Done (state_of (jumpTo 1 (Some 20) 5 6 7 (sample_world None)))"
  by (simp add: jumpTo_def jumpTo_change_area_def world_ops sample_world_def Let_def
      new_calls_def)

text \<open>
  C7. When the precondition holds, \<open>movedPC\<close> is called once if the object moved is
  the player character and not at all otherwise. For the player character the
  relocation always completes, and the notification is the last call, directly after
  the one \<open>unlockFrame\<close>.
\<close>

theorem jumpTo_notifies_pc:
  fixes w :: "'f World" and object :: objref and src dst :: arearef and x y z :: 'f
  defines "new \<equiv> new_calls w (state_of (jumpTo object (Some dst) x y z w))"
  assumes "getArea w object = Some src"
  shows "count_list new MovedPC = (if Some object = getPC w then 1 else 0)
       \<and> (Some object = getPC w \<longrightarrow>
            (\<exists>w'. jumpTo object (Some dst) x y z w = Done w')
          \<and> last new = MovedPC \<and> last (butlast new) = UnlockFrame
          \<and> count_list new UnlockFrame = 1)"
proof -
  have "pc_in_area w" if "Some object = getPC w"
    using that assms(2) by (cases "pc w") (auto simp: pc_in_area_def getPC_def toObject_def)
  then have d: "\<exists>w'. jumpTo object (Some dst) x y z w = Done w'" if "Some object = getPC w"
    using that jumpTo_outcome [OF assms(2), of dst x y z] by auto
  have n: "count_list new MovedPC = (if Some object = getPC w then 1 else 0)
       \<and> (Some object = getPC w \<longrightarrow>
            last new = MovedPC \<and> last (butlast new) = UnlockFrame
          \<and> count_list new UnlockFrame = 1)"
    using assms(2)
    unfolding new_def new_calls_jumpTo [OF assms(2)] finish_calls_def getPC_def
    by (auto simp: toObject_def getArea_def split: option.splits)
  from d n show ?thesis by blast
qed

text \<open>
  The player character (object 2) goes from area 10 to area 20 and the module is
  notified; object 1 makes the same move and it is not.
\<close>

theorem jumpTo_notifies_pc_witness:
  "getArea (sample_world (Some 10)) 2 = Some 10 \<and> Some 2 = getPC (sample_world (Some 10))
   \<and> count_list (new_calls (sample_world (Some 10))
        (state_of (jumpTo 2 (Some 20) 5 6 7 (sample_world (Some 10))))) MovedPC = 1
   \<and> last (new_calls (sample_world (Some 10))
        (state_of (jumpTo 2 (Some 20) 5 6 7 (sample_world (Some 10))))) = MovedPC
   \<and> getArea (sample_world (Some 10)) 1 = Some 10
   \<and> count_list (new_calls (sample_world (Some 10))
        (state_of (jumpTo 1 (Some 20) 5 6 7 (sample_world (Some 10))))) MovedPC = 0"
proof -
  have a: "getArea (sample_world (Some 10)) 2 = Some 10" "getArea (sample_world (Some 10)) 1 = Some 10"
    by (simp_all add: getArea_def sample_world_def)
  have p: "Some 2 = getPC (sample_world (Some 10))" "Some 1 \<noteq> getPC (sample_world (Some 10))"
    by (simp_all add: getPC_def sample_world_def)
  from jumpTo_notifies_pc [OF a(1), of 20 5 6 7] jumpTo_notifies_pc [OF a(2), of 20 5 6 7] a p
  show ?thesis by simp
qed

section \<open>Object parameters: getParamObject\<close>

text \<open>
  C10. For a context whose \<open>n\<close>-th parameter is an object reference \<open>r\<close>,
  \<open>getParamObject\<close> returns null when \<open>r\<close> is null or resolves to nothing or to an
  object of the invalid type, the calling object when the resolved object has the
  self type, and the resolved object itself otherwise. So what the caller of
  \<open>getParamObject\<close> receives is null, or the calling object of the context as the
  context holds it, or the resolved parameter object, whose type is then neither
  invalid nor self.
\<close>

theorem getParamObject_resolves:
  assumes "n < length (getParams ctx)" and "getParams ctx ! n = VObject r"
  shows "getParamObject w ctx n =
           Inr (case toObject w r of
                  None \<Rightarrow> None
                | Some object \<Rightarrow>
                    if getType w object = kObjectTypeInvalid then None
                    else if getType w object = kObjectTypeSelf then getCaller ctx
                    else Some object)
       \<and> (getParamObject w ctx n = Inr None
          \<or> (getParamObject w ctx n = Inr (getCaller ctx)
               \<and> (\<exists>object. toObject w r = Some object \<and> getType w object = kObjectTypeSelf))
          \<or> (getParamObject w ctx n = Inr (toObject w r)
               \<and> (\<exists>object. toObject w r = Some object \<and> getType w object \<noteq> kObjectTypeInvalid
                      \<and> getType w object \<noteq> kObjectTypeSelf)))"
  using assms by (auto simp: getParamObject_def split: option.splits)

text \<open>
  Parameter 0 of the sample context is the self marker and yields the caller, object 5;
  parameter 2 is object 5 itself, of an ordinary type.
\<close>

theorem getParamObject_resolves_witness:
  "0 < length (getParams (self_ctx (Some 5))) \<and> getParams (self_ctx (Some 5)) ! 0 = VObject (Some 3)
   \<and> getParamObject script_world (self_ctx (Some 5)) 0 = Inr (Some 5)
   \<and> 2 < length (getParams (self_ctx (Some 5))) \<and> getParams (self_ctx (Some 5)) ! 2 = VObject (Some 5)
   \<and> getParamObject script_world (self_ctx (Some 5)) 2 = Inr (Some 5)"
  using getParamObject_resolves [of 0 "self_ctx (Some 5)" "Some 3" script_world]
    getParamObject_resolves [of 2 "self_ctx (Some 5)" "Some 5" script_world]
  by (simp add: self_ctx_def script_world_def getParams_def getCaller_def toObject_def getType_def)

text \<open>
  The calling object is handed on unchecked: with the self marker as parameter 0 and
  object 4, of the invalid type, as the caller, \<open>getParamObject\<close> returns object 4.
\<close>

theorem getParamObject_hands_on_invalid_caller:
  "0 < length (getParams (self_ctx (Some 4)))
   \<and> getParams (self_ctx (Some 4)) ! 0 = VObject (Some 3)
   \<and> getType script_world 3 = kObjectTypeSelf
   \<and> getParamObject script_world (self_ctx (Some 4)) 0 = Inr (Some 4)
   \<and> toObject script_world (Some 4) = Some 4
   \<and> getType script_world 4 = kObjectTypeInvalid"
  by (simp add: getParamObject_def self_ctx_def script_world_def getParams_def getCaller_def
      toObject_def getType_def)

section \<open>Registration and the handler of unimplemented functions\<close>

lemma registerFunctions_loop_entries:
  "registerFunctions_loop su ps ss ds reg = Some reg' \<Longrightarrow>
   length reg' = length reg + length ps
   \<and> (\<forall>i < length reg. reg' ! i = reg ! i)
   \<and> (\<forall>i < length ps.
         reg_name (reg' ! (length reg + i)) = fp_name (ps ! i)
       \<and> reg_id (reg' ! (length reg + i)) = fp_id (ps ! i)
       \<and> reg_func (reg' ! (length reg + i)) =
           (case fp_func (ps ! i) of Some g \<Rightarrow> g | None \<Rightarrow> unimplementedFunction su))"
proof (induction su ps ss ds reg rule: registerFunctions_loop.induct)
  case (1 su ss ds reg)
  then show ?case by simp
next
  case (2 su fPtr ps fSig ss fDef ds reg)
  let ?reg1 = "registerFunction (fp_name fPtr) (fp_id fPtr)
      (case fp_func fPtr of Some g \<Rightarrow> g | None \<Rightarrow> unimplementedFunction su)
      (fs_returnType fSig # signature_parameters (fs_parameters fSig))
      (default_parameters (fd_defaults fDef)) reg"
  from "2.prems" have ids: "fs_id fSig = fp_id fPtr \<and> fd_id fDef = fp_id fPtr"
    by (simp split: if_splits)
  with "2.prems" have run: "registerFunctions_loop su ps ss ds ?reg1 = Some reg'"
    by (simp add: Let_def)
  have len1: "length ?reg1 = Suc (length reg)"
    by (simp add: registerFunction_def)
  from "2.IH" [OF ids refl refl refl run]
  have ih: "length reg' = length ?reg1 + length ps"
    "\<forall>i < length ?reg1. reg' ! i = ?reg1 ! i"
    "\<forall>i < length ps.
         reg_name (reg' ! (length ?reg1 + i)) = fp_name (ps ! i)
       \<and> reg_id (reg' ! (length ?reg1 + i)) = fp_id (ps ! i)
       \<and> reg_func (reg' ! (length ?reg1 + i)) =
           (case fp_func (ps ! i) of Some g \<Rightarrow> g | None \<Rightarrow> unimplementedFunction su)"
    by simp_all
  have old: "\<forall>i < length reg. reg' ! i = reg ! i"
    using ih(2) len1 by (simp add: registerFunction_def nth_append)
  have new: "reg' ! length reg = ?reg1 ! length reg"
    using ih(2) len1 by simp
  have entries: "reg_name (reg' ! (length reg + i)) = fp_name ((fPtr # ps) ! i)
       \<and> reg_id (reg' ! (length reg + i)) = fp_id ((fPtr # ps) ! i)
       \<and> reg_func (reg' ! (length reg + i)) =
           (case fp_func ((fPtr # ps) ! i) of Some g \<Rightarrow> g | None \<Rightarrow> unimplementedFunction su)"
    if "i < length (fPtr # ps)" for i
  proof (cases i)
    case 0
    with new show ?thesis by (simp add: registerFunction_def)
  next
    case (Suc j)
    with that ih(3) len1 show ?thesis by simp
  qed
  from ih(1) len1 old entries show ?case by simp
qed simp_all

text \<open>
  C8. When the registration of the tables succeeds, every row whose implementation
  is null is registered, under its name and id, with the handler of unimplemented
  functions (row \<open>i\<close> is the \<open>i\<close>-th registration made). Invoking the registered
  function completes, leaves the context as it is, and changes the world by one log
  entry only: the warning made of the function's name and its formatted parameters.
  The return value is not written, so a call answers with the zero or empty value
  that the new context holds.
\<close>

theorem unimplemented_entries_registered:
  fixes su :: "('f::zero) strutil"
  assumes "registerFunctions su ptrs sigs defs reg0 = Some reg"
    and "i < length ptrs" and "fp_func (ptrs ! i) = None"
  shows "reg_name (reg ! (length reg0 + i)) = fp_name (ptrs ! i)
       \<and> reg_id (reg ! (length reg0 + i)) = fp_id (ptrs ! i)
       \<and> reg_func (reg ! (length reg0 + i)) = unimplementedFunction su
       \<and> (\<forall>ctx w. reg_func (reg ! (length reg0 + i)) ctx w =
             Done (ctx, w\<lparr>calls := calls w @
                     [Warning (''TODO: '' @ getName ctx @ ''('' @ formatParams su w ctx @ '')'')]\<rparr>))
       \<and> (\<forall>name rt params caller w.
             ctx_return (fst (state_of (reg_func (reg ! (length reg0 + i))
                                          (FunctionContext_new name rt params caller) w)))
               = Variable_new rt)"
proof -
  from assms(1) have "registerFunctions_loop su ptrs sigs defs reg0 = Some reg"
    by (simp add: registerFunctions_def split: if_splits)
  from registerFunctions_loop_entries [OF this] assms(2,3)
  have e: "reg_name (reg ! (length reg0 + i)) = fp_name (ptrs ! i)
       \<and> reg_id (reg ! (length reg0 + i)) = fp_id (ptrs ! i)
       \<and> reg_func (reg ! (length reg0 + i)) = unimplementedFunction su"
    by auto
  then show ?thesis
    by (simp add: unimplementedFunction_def warning_def record_call_def FunctionContext_new_def)
qed

text \<open>
  The one-row table registers "Random" with the handler; invoked on the sample
  context it logs the name and the three parameters.
\<close>

theorem unimplemented_entries_registered_witness:
  "registerFunctions demo_strutil demo_pointers demo_signatures demo_defaults [] = Some demo_registry
   \<and> 0 < length demo_pointers \<and> fp_func (demo_pointers ! 0) = None
   \<and> reg_func (demo_registry ! 0) = unimplementedFunction demo_strutil
   \<and> reg_func (demo_registry ! 0) (self_ctx None) script_world =
       Done (self_ctx None,
             script_world\<lparr>calls := [Warning (''TODO: GetTag(<object>('' @ dquote @ ''self'' @ dquote
                                       @ ''), 7, <object>('' @ dquote @ ''obj'' @ dquote @ ''))'')]\<rparr>)"
proof -
  have r: "registerFunctions demo_strutil demo_pointers demo_signatures demo_defaults [] =
             Some demo_registry"
    by (simp add: registerFunctions_def demo_pointers_def demo_signatures_def demo_defaults_def
        demo_registry_def registerFunction_def)
  have i: "0 < length demo_pointers" and n: "fp_func (demo_pointers ! 0) = None"
    by (simp_all add: demo_pointers_def)
  have f: "formatParams demo_strutil script_world (self_ctx None) =
             ''<object>('' @ dquote @ ''self'' @ dquote @ ''), 7, <object>('' @ dquote @ ''obj''
               @ dquote @ '')''"
    by (simp add: formatParams_def self_ctx_def getParams_def formatTag_def getTag_def
        script_world_def demo_strutil_def dquote_def)
  have g: "getName (self_ctx None) = ''GetTag''" and c: "calls script_world = []"
    by (simp_all add: getName_def self_ctx_def script_world_def)
  have z: "length ([] :: int Registration list) + 0 = 0"
    by simp
  note t = unimplemented_entries_registered [OF r i n, unfolded z]
  from t have a: "reg_func (demo_registry ! 0) = unimplementedFunction demo_strutil"
    by blast
  from t have "reg_func (demo_registry ! 0) (self_ctx None) script_world =
      Done (self_ctx None, script_world\<lparr>calls := calls script_world @
        [Warning (''TODO: '' @ getName (self_ctx None) @ ''(''
                   @ formatParams demo_strutil script_world (self_ctx None) @ '')'')]\<rparr>)"
    by blast
  then have b: "reg_func (demo_registry ! 0) (self_ctx None) script_world =
       Done (self_ctx None,
             script_world\<lparr>calls := [Warning (''TODO: GetTag(<object>('' @ dquote @ ''self'' @ dquote
                                       @ ''), 7, <object>('' @ dquote @ ''obj'' @ dquote @ ''))'')]\<rparr>)"
    unfolding f g c by simp
  from r i n a b show ?thesis by blast
qed

section \<open>Random numbers: getRandom\<close>

lemma wrap32_id: "INT32_MIN \<le> x \<Longrightarrow> x \<le> INT32_MAX \<Longrightarrow> wrap32 x = x"
  by (simp add: wrap32_def INT32_MIN_def INT32_MAX_def)

lemma wrap32_add_left: "wrap32 (wrap32 a + b) = wrap32 (a + b)"
proof -
  have "(((a + 2 ^ 31) mod 2 ^ 32 - 2 ^ 31) + b + 2 ^ 31) mod (2 ^ 32 :: int)
        = ((a + 2 ^ 31) mod 2 ^ 32 + b) mod 2 ^ 32"
    by (simp add: algebra_simps)
  also have "\<dots> = (a + 2 ^ 31 + b) mod 2 ^ 32"
    by (simp add: mod_add_left_eq)
  finally show ?thesis
    by (simp add: wrap32_def algebra_simps)
qed

lemma draw_bounds:
  assumes "mn \<le> mx"
  shows "mn \<le> draw rand mn mx j \<and> draw rand mn mx j \<le> mx"
proof -
  from assms have p: "0 < mx - mn + 1" by simp
  have "0 \<le> int (rand j) mod (mx - mn + 1)"
    using p by (rule pos_mod_sign)
  moreover have "int (rand j) mod (mx - mn + 1) < mx - mn + 1"
    using p by (rule pos_mod_bound)
  ultimately show ?thesis by (simp add: draw_def)
qed

lemma smod_nonneg_pos: "0 \<le> a \<Longrightarrow> 0 < b \<Longrightarrow> (a :: int) smod b = a mod b"
  by (simp add: smod_int_alt_def sgn_if)

lemma getRandom_step:
  assumes "mn \<le> mx" and "mx - mn < INT32_MAX" and "INT32_MIN \<le> mn" and "mx \<le> INT32_MAX"
    and "0 < n"
  shows "getRandom_loop rand i mn mx n r =
           getRandom_loop rand (Suc i) mn mx (n - 1) (wrap32 (r + draw rand mn mx i))"
proof -
  have d: "wrap32 (mx - mn) = mx - mn"
    using assms(1,2) by (intro wrap32_id) (simp_all add: INT32_MIN_def INT32_MAX_def)
  have m: "wrap32 (mx - mn + 1) = mx - mn + 1"
    using assms(1,2) by (intro wrap32_id) (simp_all add: INT32_MIN_def INT32_MAX_def)
  have p: "0 < mx - mn + 1" using assms(1) by simp
  have s: "int (rand i) smod (mx - mn + 1) = int (rand i) mod (mx - mn + 1)"
    using p by (simp add: smod_nonneg_pos)
  have b: "mn \<le> draw rand mn mx i \<and> draw rand mn mx i \<le> mx"
    using assms(1) by (rule draw_bounds)
  have w: "wrap32 (draw rand mn mx i) = draw rand mn mx i"
    using b assms(3,4) by (intro wrap32_id) simp_all
  have e: "wrap32 (int (rand i) smod (mx - mn + 1) + mn) = draw rand mn mx i"
    using w by (simp add: s draw_def)
  show ?thesis
    using assms(5) p by (subst getRandom_loop.simps) (simp add: d m e Let_def)
qed

lemma getRandom_loop_sum:
  assumes "mn \<le> mx" and "mx - mn < INT32_MAX" and "INT32_MIN \<le> mn" and "mx \<le> INT32_MAX"
  shows "getRandom_loop rand i mn mx (int k) (wrap32 r) =
           Inr (wrap32 (r + (\<Sum>j = i..<i + k. draw rand mn mx j)))"
proof (induction k arbitrary: i r)
  case 0
  show ?case by (subst getRandom_loop.simps) simp
next
  case (Suc k)
  have "getRandom_loop rand i mn mx (int (Suc k)) (wrap32 r) =
        getRandom_loop rand (Suc i) mn mx (int k) (wrap32 (wrap32 r + draw rand mn mx i))"
    using getRandom_step [OF assms, of "int (Suc k)" rand i "wrap32 r"] by simp
  also have "\<dots> = getRandom_loop rand (Suc i) mn mx (int k) (wrap32 (r + draw rand mn mx i))"
    by (simp add: wrap32_add_left)
  also have "\<dots> = Inr (wrap32 (r + draw rand mn mx i + (\<Sum>j = Suc i..<Suc i + k. draw rand mn mx j)))"
    by (rule Suc.IH)
  also have "r + draw rand mn mx i + (\<Sum>j = Suc i..<Suc i + k. draw rand mn mx j)
           = r + (\<Sum>j = i..<i + Suc k. draw rand mn mx j)"
    by (simp add: sum.atLeast_Suc_lessThan)
  finally show ?case .
qed

lemma sum_draw_bounds:
  assumes "mn \<le> mx"
  shows "int k * mn \<le> (\<Sum>j<k. draw rand mn mx j) \<and> (\<Sum>j<k. draw rand mn mx j) \<le> int k * mx"
proof (induction k)
  case 0
  show ?case by simp
next
  case (Suc k)
  with draw_bounds [OF assms, of rand k] show ?case
    by (simp add: algebra_simps)
qed

text \<open>
  C9, as amended. Let \<open>k\<close> be \<open>n\<close>, or 1 when \<open>n < 1\<close>. For \<open>mn \<le> mx\<close> whose
  modulus \<open>mx - mn + 1\<close> fits a 32-bit integer and for which \<open>k * mn\<close> and
  \<open>k * mx\<close> are 32-bit integers, \<open>getRandom\<close> returns the sum of the first \<open>k\<close>
  draws. Each draw is a value of the generator reduced into the range and lies between
  \<open>mn\<close> and \<open>mx\<close>, so the sum lies between \<open>k * mn\<close> and \<open>k * mx\<close>; the modulus
  is positive; and any \<open>n\<close> gives what \<open>k\<close> gives, so every \<open>n \<le> 0\<close> behaves as 1.
\<close>

theorem getRandom_sum_of_draws:
  fixes rand :: "nat \<Rightarrow> nat" and mn mx n :: int
  defines "k \<equiv> (if n < 1 then 1 else n)"
  assumes "mn \<le> mx" and "mx - mn < INT32_MAX"
    and "INT32_MIN \<le> k * mn" and "k * mx \<le> INT32_MAX"
  shows "getRandom rand mn mx n = Inr (\<Sum>j<nat k. draw rand mn mx j)
       \<and> (\<forall>j. mn \<le> draw rand mn mx j \<and> draw rand mn mx j \<le> mx)
       \<and> k * mn \<le> (\<Sum>j<nat k. draw rand mn mx j) \<and> (\<Sum>j<nat k. draw rand mn mx j) \<le> k * mx
       \<and> 0 < mx - mn + 1
       \<and> getRandom rand mn mx n = getRandom rand mn mx k"
proof -
  have k1: "1 \<le> k" by (simp add: k_def)
  have lo: "INT32_MIN \<le> mn"
  proof (cases "mn \<le> 0")
    case True
    then have "k * mn \<le> 1 * mn" using k1 by (intro mult_right_mono_neg) simp_all
    with assms(4) show ?thesis by simp
  next
    case False
    then show ?thesis by (simp add: INT32_MIN_def)
  qed
  have hi: "mx \<le> INT32_MAX"
  proof (cases "0 \<le> mx")
    case True
    then have "1 * mx \<le> k * mx" using k1 by (intro mult_right_mono) simp_all
    with assms(5) show ?thesis by simp
  next
    case False
    then show ?thesis by (simp add: INT32_MAX_def)
  qed
  have b: "k * mn \<le> (\<Sum>j<nat k. draw rand mn mx j) \<and> (\<Sum>j<nat k. draw rand mn mx j) \<le> k * mx"
    using sum_draw_bounds [OF assms(2), of "nat k" rand] k1 by simp
  have "getRandom rand mn mx n = getRandom_loop rand 0 mn mx (int (nat k)) (wrap32 0)"
    using k1 by (simp add: getRandom_def k_def wrap32_def)
  also have "\<dots> = Inr (wrap32 (0 + (\<Sum>j = 0..<0 + nat k. draw rand mn mx j)))"
    by (rule getRandom_loop_sum [OF assms(2,3) lo hi])
  also have "\<dots> = Inr (\<Sum>j<nat k. draw rand mn mx j)"
    using b assms(4,5) by (simp add: atLeast0LessThan wrap32_id)
  finally have r: "getRandom rand mn mx n = Inr (\<Sum>j<nat k. draw rand mn mx j)" .
  have same: "getRandom rand mn mx n = getRandom rand mn mx k"
    by (simp add: getRandom_def k_def)
  from r b same draw_bounds [OF assms(2)] assms(2) show ?thesis by simp
qed

text \<open>
  Two six-sided dice with a generator that always returns 7: each draw is 2, the sum
  is 4. With \<open>n = 0\<close> one die is thrown.
\<close>

theorem getRandom_sum_of_draws_witness:
  "(1 :: int) \<le> 6 \<and> 6 - 1 < INT32_MAX
   \<and> INT32_MIN \<le> (if (2 :: int) < 1 then 1 else 2) * 1
   \<and> (if (2 :: int) < 1 then 1 else 2) * 6 \<le> INT32_MAX
   \<and> getRandom sevens 1 6 2 = Inr 4
   \<and> getRandom sevens 1 6 0 = Inr 2"
proof -
  have d: "draw sevens 1 6 j = 2" for j
    by (simp add: draw_def sevens_def)
  from getRandom_sum_of_draws [of 1 6 2 sevens] getRandom_sum_of_draws [of 1 6 0 sevens]
  show ?thesis
    by (simp add: INT32_MIN_def INT32_MAX_def d)
qed

text \<open>
  The claim without the bounds fails on 32-bit integers. For the full range,
  \<open>mn = INT32_MIN \<le> mx = INT32_MAX\<close>, the modulus wraps to 0 and the remainder
  traps. For \<open>mn = mx = INT32_MAX\<close> and \<open>n = 2\<close> the sum wraps to -2, which is not
  between \<open>2 * mn\<close> and \<open>2 * mx\<close>.
\<close>

theorem getRandom_overflow:
  "INT32_MIN \<le> INT32_MAX
   \<and> wrap32 (wrap32 (INT32_MAX - INT32_MIN) + 1) = 0
   \<and> getRandom sevens INT32_MIN INT32_MAX 1 = Inl DivisionByZero
   \<and> getRandom sevens INT32_MAX INT32_MAX 2 = Inr (- 2)
   \<and> \<not> (2 * INT32_MAX \<le> - 2)"
proof -
  have m: "wrap32 (wrap32 (INT32_MAX - INT32_MIN) + 1) = 0"
    by (simp add: wrap32_def INT32_MIN_def INT32_MAX_def)
  have a: "getRandom sevens INT32_MIN INT32_MAX 1 = Inl DivisionByZero"
    unfolding getRandom_def by (subst getRandom_loop.simps) (simp add: m)
  have "getRandom sevens INT32_MAX INT32_MAX 2 =
          getRandom_loop sevens 0 INT32_MAX INT32_MAX (int 2) (wrap32 0)"
    by (simp add: getRandom_def wrap32_def)
  also have "\<dots> = Inr (wrap32 (0 + (\<Sum>j = 0..<0 + 2. draw sevens INT32_MAX INT32_MAX j)))"
    by (rule getRandom_loop_sum) (simp_all add: INT32_MIN_def INT32_MAX_def)
  also have "\<dots> = Inr (- 2)"
    by (simp add: draw_def wrap32_def INT32_MAX_def)
  finally have b: "getRandom sevens INT32_MAX INT32_MAX 2 = Inr (- 2)" .
  from m a b show ?thesis by (simp add: INT32_MIN_def INT32_MAX_def)
qed

end
